theory Spec2Isabelle
  imports Main
begin

section \<open>Values exchanged over the message channel\<close>

text \<open>
  The host page (\<^verbatim>\<open>script.js\<close>) talks to an embedded frame with \<^verbatim>\<open>postMessage\<close>.
  What arrives in \<^verbatim>\<open>event.data\<close> is a structured clone of a JavaScript value, so the
  handlers have to cope with every shape of value, not only with well-formed messages.
  The values are modelled as finite trees: \<^verbatim>\<open>undefined\<close>, \<^verbatim>\<open>null\<close>, booleans, numbers
  (integral ones and \<^verbatim>\<open>NaN\<close>; of a number the script only ever observes whether it is
  truthy), strings, \<^verbatim>\<open>Blob\<close>s, arrays and plain objects (an association list; the first
  binding of a key is the property). Values that \<^verbatim>\<open>JSON.stringify\<close> rejects (a
  \<^verbatim>\<open>BigInt\<close>, a cyclic object) are outside this type, so serialising a payload for the
  event log always succeeds in the model.
\<close>

datatype blob = Blob (blob_bytes: string) (blob_type: string)

definition blob_size :: "blob \<Rightarrow> nat" where
  "blob_size b = length (blob_bytes b)"

datatype jsval =
    JUndefined
  | JNull
  | JBool bool
  | JNum int
  | JNaN
  | JStr string
  | JBlob blob
  | JArr "jsval list"
  | JObj "(string \<times> jsval) list"

text \<open>JavaScript's \<^verbatim>\<open>ToBoolean\<close>: what \<^verbatim>\<open>!x\<close>, \<^verbatim>\<open>x && y\<close> and \<^verbatim>\<open>x || y\<close> test.\<close>

fun truthy :: "jsval \<Rightarrow> bool" where
  "truthy JUndefined = False"
| "truthy JNull = False"
| "truthy (JBool b) = b"
| "truthy (JNum n) = (n \<noteq> 0)"
| "truthy JNaN = False"
| "truthy (JStr s) = (s \<noteq> [])"
| "truthy (JBlob b) = True"
| "truthy (JArr xs) = True"
| "truthy (JObj kvs) = True"

fun nullish :: "jsval \<Rightarrow> bool" where
  "nullish JUndefined = True"
| "nullish JNull = True"
| "nullish v = False"

text \<open>\<^verbatim>\<open>a || b\<close>\<close>

definition js_or :: "jsval \<Rightarrow> jsval \<Rightarrow> jsval" where
  "js_or a b = (if truthy a then a else b)"

text \<open>
  Whether the conversion to a string, as a template literal \<^verbatim>\<open>`${v}`\<close> or the setter of
  a DOM string attribute performs it, completes. It does on every primitive and on a
  \<^verbatim>\<open>Blob\<close>. On a plain object it calls \<^verbatim>\<open>toString\<close>; a cloned object that has a property
  of that name (never a function after cloning) has no usable \<^verbatim>\<open>toString\<close> and no
  \<^verbatim>\<open>valueOf\<close> that yields a primitive, and the conversion throws a \<^verbatim>\<open>TypeError\<close>. An
  array converts its elements in turn.
\<close>

fun stringifies :: "jsval \<Rightarrow> bool" where
  "stringifies (JObj kvs) = (map_of kvs ''toString'' = None)"
| "stringifies (JArr xs) = list_all stringifies xs"
| "stringifies v = True"

text \<open>
  Property read \<^verbatim>\<open>v?.k\<close>, for the keys the script reads (\<^verbatim>\<open>type\<close>, \<^verbatim>\<open>payload\<close>,
  \<^verbatim>\<open>blob\<close>, \<^verbatim>\<open>filename\<close>, \<^verbatim>\<open>version\<close>): a plain object yields the property or
  \<^verbatim>\<open>undefined\<close>; a \<^verbatim>\<open>Blob\<close> has \<^verbatim>\<open>type\<close> (its MIME type) and \<^verbatim>\<open>size\<close>; primitives
  and arrays have none of these keys; on \<^verbatim>\<open>null\<close> and \<^verbatim>\<open>undefined\<close> the optional chain
  yields \<^verbatim>\<open>undefined\<close>. A plain read \<^verbatim>\<open>v.k\<close> agrees with it wherever \<open>v\<close> is not nullish
  and throws otherwise; the places where the script reads without \<^verbatim>\<open>?.\<close> and without a
  guard test \<open>nullish\<close> themselves.
\<close>

fun read_prop :: "jsval \<Rightarrow> string \<Rightarrow> jsval" where
  "read_prop (JObj kvs) k = (case map_of kvs k of Some v \<Rightarrow> v | None \<Rightarrow> JUndefined)"
| "read_prop (JBlob b) k =
     (if k = ''type'' then JStr (blob_type b)
      else if k = ''size'' then JNum (int (blob_size b))
      else JUndefined)"
| "read_prop v k = JUndefined"

datatype js_error = TypeError

text \<open>
  The destructuring \<^verbatim>\<open>const { type, payload } = event.data\<close>: a \<^verbatim>\<open>TypeError\<close> on
  \<^verbatim>\<open>null\<close> and \<^verbatim>\<open>undefined\<close>, the two properties (or \<^verbatim>\<open>undefined\<close> for a missing
  one) on every other value, primitive or object.
\<close>

definition destructure :: "jsval \<Rightarrow> js_error + jsval \<times> jsval" where
  "destructure d =
     (if nullish d then Inl TypeError
      else Inr (read_prop d ''type'', read_prop d ''payload''))"

text \<open>The values that are objects to JavaScript; the others are \<^verbatim>\<open>null\<close>,
  \<^verbatim>\<open>undefined\<close> and the primitives.\<close>

fun is_object :: "jsval \<Rightarrow> bool" where
  "is_object (JBlob b) = True"
| "is_object (JArr xs) = True"
| "is_object (JObj kvs) = True"
| "is_object v = False"

text \<open>
  How a handler finishes: it returns, or it throws. A JavaScript exception does not undo
  the assignments made before it, so both outcomes carry the state reached.
\<close>

datatype 'a completion = Normal 'a | Throw js_error 'a

fun state_of :: "'a completion \<Rightarrow> 'a" where
  "state_of (Normal s) = s"
| "state_of (Throw e s) = s"

fun returns :: "'a completion \<Rightarrow> bool" where
  "returns (Normal s) = True"
| "returns (Throw e s) = False"

record event =
  ev_origin :: string
  ev_data :: jsval

section \<open>The host page: script.js\<close>

definition CADIT_ORIGIN :: string where
  "CADIT_ORIGIN = ''https://app.cadit.app''"

definition PARTNER_NAME :: string where
  "PARTNER_NAME = ''MyApp''"

text \<open>
  The page keeps its state in module variables and in the DOM. Text written to the status
  line, the console and the event log is recorded by the template used and the values put
  into it, not as rendered characters.
\<close>

datatype status =
    PageText \<comment> \<open>whatever the HTML page shows before the script writes\<close>
  | CaditReady jsval \<comment> \<open>\<^verbatim>\<open>CADit ready (v${...})\<close>\<close>
  | NoStlData \<comment> \<open>\<^verbatim>\<open>Error: No STL data received\<close>\<close>
  | Received jsval nat \<comment> \<open>\<^verbatim>\<open>Received: ${currentFilename} (${...} KB)\<close>\<close>
  | Downloaded jsval \<comment> \<open>\<^verbatim>\<open>Downloaded: ${currentFilename}\<close>\<close>
  | Initialized string \<comment> \<open>\<^verbatim>\<open>Initialized with partner name: \<close> + name\<close>
  | Requesting \<comment> \<open>\<^verbatim>\<open>Requesting STL export...\<close>\<close>

datatype console_line =
    ConsoleLog string "jsval list"
  | ConsoleWarn string "jsval list"
  | ConsoleError string

datatype direction = Sent | Recv

record log_entry =
  le_type :: jsval
  le_direction :: direction
  le_data :: jsval

text \<open>A call of \<^verbatim>\<open>contentWindow.postMessage(message, targetOrigin)\<close>.\<close>

record outbound =
  om_message :: jsval
  om_target :: string

record state =
  isReady :: bool
  currentBlob :: jsval
  currentFilename :: jsval
  renderer :: bool \<comment> \<open>the viewer has been set up\<close>
  statusText :: status
  getStlBtn_disabled :: bool
  downloadBtn_disabled :: bool
  previewContainer_shown :: bool
  eventLog :: "log_entry list" \<comment> \<open>newest entry first\<close>
  contentWindow :: bool \<comment> \<open>\<^verbatim>\<open>caditFrame.contentWindow\<close> is not null\<close>
  outbox :: "outbound list" \<comment> \<open>the \<^verbatim>\<open>postMessage\<close> calls made, oldest first\<close>
  console :: "console_line list"
  alerts :: "string list"
  viewer_loads :: "blob list" \<comment> \<open>blobs handed to \<^verbatim>\<open>loadSTL\<close>\<close>
  downloads :: "(blob \<times> jsval) list" \<comment> \<open>files offered by \<^verbatim>\<open>downloadStl\<close>\<close>

text \<open>
  The state once the script has run to its last line: the module variables as they are
  initialised and the one \<^verbatim>\<open>page-loaded\<close> entry in the event log. The HTML page is not
  part of the sources; both buttons are taken to start disabled and the preview hidden.
\<close>

definition page_loaded :: state where
  "page_loaded =
    \<lparr> isReady = False, currentBlob = JNull, currentFilename = JNull, renderer = False,
      statusText = PageText, getStlBtn_disabled = True, downloadBtn_disabled = True,
      previewContainer_shown = False,
      eventLog = [\<lparr> le_type = JStr ''page-loaded'', le_direction = Sent,
        le_data = JObj [(''info'', JStr ''Waiting for CADit to send ready message...'')] \<rparr>],
      contentWindow = True, outbox = [], console = [], alerts = [], viewer_loads = [],
      downloads = [] \<rparr>"

definition logEvent :: "jsval \<Rightarrow> direction \<Rightarrow> jsval \<Rightarrow> state \<Rightarrow> state" where
  "logEvent type dir d s =
     s\<lparr> eventLog := \<lparr> le_type = type, le_direction = dir, le_data = d \<rparr> # eventLog s \<rparr>"

text \<open>The message object \<^verbatim>\<open>{ type, payload }\<close> built by \<^verbatim>\<open>sendMessage\<close>.\<close>

definition message :: "jsval \<Rightarrow> jsval \<Rightarrow> jsval" where
  "message type payload = JObj [(''type'', type), (''payload'', payload)]"

definition sendMessage :: "string \<Rightarrow> jsval \<Rightarrow> state \<Rightarrow> state" where
  "sendMessage type payload s =
     (if \<not> contentWindow s
      then s\<lparr> console := console s @ [ConsoleError ''CADit iframe not available''] \<rparr>
      else logEvent (JStr type) Sent payload
             (s\<lparr> outbox := outbox s @
                 [\<lparr> om_message = message (JStr type) payload, om_target = CADIT_ORIGIN \<rparr>] \<rparr>))"

definition init_payload :: jsval where
  "init_payload =
     JObj [(''partnerName'', JStr PARTNER_NAME), (''features'', JArr [JStr ''export''])]"

definition sendInit :: "state \<Rightarrow> state" where
  "sendInit s = (sendMessage ''init'' init_payload s)\<lparr> statusText := Initialized PARTNER_NAME \<rparr>"

text \<open>
  \<^verbatim>\<open>handleReady\<close> sets the flag first and then formats the status line; when the version
  cannot be converted to a string it throws there, with the flag set and nothing sent.
\<close>

definition handleReady :: "jsval \<Rightarrow> state \<Rightarrow> state completion" where
  "handleReady payload s =
     (let s1 = s\<lparr> isReady := True \<rparr>;
          version = js_or (read_prop payload ''version'') (JStr ''unknown'')
      in if \<not> stringifies version then Throw TypeError s1
         else Normal (sendInit (s1\<lparr> statusText := CaditReady version,
                                     getStlBtn_disabled := False \<rparr>)))"

text \<open>
  \<^verbatim>\<open>handleExportStl\<close> stores the blob and the file name first and only then hands the blob
  to the viewer. \<^verbatim>\<open>loadSTL\<close> calls \<^verbatim>\<open>blob.arrayBuffer()\<close>, which exists on a \<^verbatim>\<open>Blob\<close>
  only: any other truthy value makes the handler throw after the assignments. The viewer
  itself (Three.js) is an external collaborator and taken to work. The status line is
  formatted last, from the stored file name.
  \<^verbatim>\<open>Math.round(size / 1024)\<close> rounds halves up, which on naturals is
  \<open>(size + 512) div 1024\<close>.
\<close>

definition handleExportStl :: "jsval \<Rightarrow> state \<Rightarrow> state completion" where
  "handleExportStl payload s =
     (if \<not> truthy (read_prop payload ''blob'')
      then Normal (s\<lparr> console := console s @ [ConsoleError ''No blob in export-stl payload''],
                      statusText := NoStlData \<rparr>)
      else
        let s1 = s\<lparr> currentBlob := read_prop payload ''blob'',
                    currentFilename := js_or (read_prop payload ''filename'') (JStr ''design.stl''),
                    downloadBtn_disabled := False,
                    previewContainer_shown := True,
                    renderer := True \<rparr>
        in case read_prop payload ''blob'' of
             JBlob b \<Rightarrow>
               let s2 = s1\<lparr> viewer_loads := viewer_loads s1 @ [b] \<rparr>
               in if \<not> stringifies (currentFilename s1) then Throw TypeError s2
                  else Normal (s2\<lparr> statusText := Received (currentFilename s1)
                                                  ((blob_size b + 512) div 1024) \<rparr>)
           | _ \<Rightarrow> Throw TypeError s1)"

text \<open>
  \<^verbatim>\<open>handleMessage\<close>: the origin check (\<^verbatim>\<open>!==\<close> on strings), the destructuring of
  \<^verbatim>\<open>event.data\<close>, the test of the tag and the dispatch. The \<^verbatim>\<open>switch\<close> compares with
  \<^verbatim>\<open>===\<close>. In the branch for a foreign origin \<^verbatim>\<open>event.data.type\<close> is read only when
  \<^verbatim>\<open>event.data\<close> is truthy, so that read cannot throw. The first use of the tag is in a
  template literal, which converts it to a string.
\<close>

definition handleMessage :: "event \<Rightarrow> state \<Rightarrow> state completion" where
  "handleMessage ev s =
     (if ev_origin ev \<noteq> CADIT_ORIGIN
      then Normal
        (if truthy (ev_data ev) \<and> truthy (read_prop (ev_data ev) ''type'')
         then s\<lparr> console := console s @
                  [ConsoleLog (''Ignored message from origin: '' @ ev_origin ev @
                               '' (expected: '' @ CADIT_ORIGIN @ '')'') []] \<rparr>
         else s)
      else case destructure (ev_data ev) of
        Inl e \<Rightarrow> Throw e s
      | Inr (type, payload) \<Rightarrow>
          if \<not> truthy type then Normal s
          else if \<not> stringifies type then Throw TypeError s
          else
            let s1 = logEvent type Recv payload
                       (s\<lparr> console := console s @
                            [ConsoleLog ''Received message: '' [type, payload]] \<rparr>)
            in if type = JStr ''ready'' then handleReady payload s1
               else if type = JStr ''export-stl'' then handleExportStl payload s1
               else Normal (s1\<lparr> console := console s1 @
                                 [ConsoleLog ''Unknown message type:'' [type]] \<rparr>))"

text \<open>
  \<^verbatim>\<open>downloadStl\<close>: \<^verbatim>\<open>URL.createObjectURL\<close> accepts a \<^verbatim>\<open>Blob\<close> only, and the file name
  is converted to a string when it is assigned to \<^verbatim>\<open>a.download\<close>.
\<close>

definition downloadStl :: "state \<Rightarrow> state completion" where
  "downloadStl s =
     (if \<not> truthy (currentBlob s)
      then Normal (s\<lparr> alerts := alerts s @
                        [''No STL file available. Request an export first.''] \<rparr>)
      else case currentBlob s of
             JBlob b \<Rightarrow>
               if \<not> stringifies (currentFilename s) then Throw TypeError s
               else Normal (s\<lparr> downloads := downloads s @ [(b, currentFilename s)],
                               statusText := Downloaded (currentFilename s) \<rparr>)
           | _ \<Rightarrow> Throw TypeError s)"

definition requestStl :: "state \<Rightarrow> state" where
  "requestStl s =
     (if \<not> isReady s
      then s\<lparr> alerts := alerts s @
                 [''CADit is not ready yet. Please wait for it to load.''] \<rparr>
      else (sendMessage ''get-stl'' JNull s)\<lparr> statusText := Requesting \<rparr>)"

text \<open>
  The three listeners the script registers. The browser runs one listener to completion
  before the next event; an exception thrown by a listener is reported and the page goes
  on with the state reached.
\<close>

datatype input = Message event | ClickGetStl | ClickDownload

fun step :: "input \<Rightarrow> state \<Rightarrow> state completion" where
  "step (Message ev) s = handleMessage ev s"
| "step ClickGetStl s = Normal (requestStl s)"
| "step ClickDownload s = downloadStl s"

fun run :: "input list \<Rightarrow> state \<Rightarrow> state" where
  "run [] s = s"
| "run (i # is) s = run is (state_of (step i s))"

section \<open>The second copy of the script\<close>

text \<open>
  The repository holds a second, shorter copy of the script (\<^verbatim>\<open>part_000\<close>). It trusts
  another origin, keeps no artifact (an exported file is downloaded at once), has a button
  that sends \<^verbatim>\<open>init\<close> again, and warns on the console about a message without a tag.
  Its definitions carry the prefix \<open>p0\<close>.
\<close>

definition p0_CADIT_ORIGIN :: string where
  "p0_CADIT_ORIGIN = ''https://app.cadit.com''"

definition p0_PARTNER_NAME :: string where
  "p0_PARTNER_NAME = ''MyApp''"

record p0_state =
  p0_isReady :: bool
  p0_statusText :: status
  p0_getStlBtn_disabled :: bool
  p0_eventLog :: "log_entry list"
  p0_contentWindow :: bool
  p0_outbox :: "outbound list"
  p0_console :: "console_line list"
  p0_alerts :: "string list"
  p0_downloads :: "(blob \<times> jsval) list"

definition p0_page_loaded :: p0_state where
  "p0_page_loaded =
    \<lparr> p0_isReady = False, p0_statusText = PageText, p0_getStlBtn_disabled = True,
      p0_eventLog = [\<lparr> le_type = JStr ''page-loaded'', le_direction = Sent,
        le_data = JObj [(''info'', JStr ''Waiting for CADit to send ready message...'')] \<rparr>],
      p0_contentWindow = True, p0_outbox = [], p0_console = [], p0_alerts = [],
      p0_downloads = [] \<rparr>"

definition p0_logEvent :: "jsval \<Rightarrow> direction \<Rightarrow> jsval \<Rightarrow> p0_state \<Rightarrow> p0_state" where
  "p0_logEvent type dir d s =
     s\<lparr> p0_eventLog := \<lparr> le_type = type, le_direction = dir, le_data = d \<rparr> # p0_eventLog s \<rparr>"

definition p0_sendMessage :: "string \<Rightarrow> jsval \<Rightarrow> p0_state \<Rightarrow> p0_state" where
  "p0_sendMessage type payload s =
     (if \<not> p0_contentWindow s
      then s\<lparr> p0_console := p0_console s @ [ConsoleError ''CADit iframe not available''] \<rparr>
      else p0_logEvent (JStr type) Sent payload
             (s\<lparr> p0_outbox := p0_outbox s @
                 [\<lparr> om_message = message (JStr type) payload,
                    om_target = p0_CADIT_ORIGIN \<rparr>] \<rparr>))"

definition p0_init_payload :: jsval where
  "p0_init_payload =
     JObj [(''partnerName'', JStr p0_PARTNER_NAME), (''features'', JArr [JStr ''export''])]"

definition p0_sendInit :: "p0_state \<Rightarrow> p0_state" where
  "p0_sendInit s =
     (p0_sendMessage ''init'' p0_init_payload s)
       \<lparr> p0_statusText := Initialized p0_PARTNER_NAME \<rparr>"

definition p0_handleReady :: "jsval \<Rightarrow> p0_state \<Rightarrow> p0_state completion" where
  "p0_handleReady payload s =
     (let s1 = s\<lparr> p0_isReady := True \<rparr>;
          version = js_or (read_prop payload ''version'') (JStr ''unknown'')
      in if \<not> stringifies version then Throw TypeError s1
         else Normal (p0_sendInit (s1\<lparr> p0_statusText := CaditReady version,
                                        p0_getStlBtn_disabled := False \<rparr>)))"

text \<open>
  Here \<^verbatim>\<open>handleExportStl\<close> downloads at once: \<^verbatim>\<open>URL.createObjectURL\<close> accepts a
  \<^verbatim>\<open>Blob\<close> only, and the file name is converted to a string when it is assigned to
  \<^verbatim>\<open>a.download\<close>. The tag is first converted to a string inside \<^verbatim>\<open>logEvent\<close>, before
  the entry is inserted.
\<close>

definition p0_handleExportStl :: "jsval \<Rightarrow> p0_state \<Rightarrow> p0_state completion" where
  "p0_handleExportStl payload s =
     (if \<not> truthy (read_prop payload ''blob'')
      then Normal (s\<lparr> p0_console := p0_console s @
                        [ConsoleError ''No blob in export-stl payload''] \<rparr>)
      else
        let filename = js_or (read_prop payload ''filename'') (JStr ''design.stl'')
        in case read_prop payload ''blob'' of
             JBlob b \<Rightarrow>
               if \<not> stringifies filename then Throw TypeError s
               else Normal (s\<lparr> p0_downloads := p0_downloads s @ [(b, filename)],
                               p0_statusText := Downloaded filename \<rparr>)
           | _ \<Rightarrow> Throw TypeError s)"

definition p0_handleMessage :: "event \<Rightarrow> p0_state \<Rightarrow> p0_state completion" where
  "p0_handleMessage ev s =
     (if ev_origin ev \<noteq> p0_CADIT_ORIGIN then Normal s
      else case destructure (ev_data ev) of
        Inl e \<Rightarrow> Throw e s
      | Inr (type, payload) \<Rightarrow>
          if \<not> truthy type
          then Normal (s\<lparr> p0_console := p0_console s @
                            [ConsoleWarn ''Received message without type:'' [ev_data ev]] \<rparr>)
          else if \<not> stringifies type then Throw TypeError s
          else
            let s1 = p0_logEvent type Recv payload s
            in if type = JStr ''ready'' then p0_handleReady payload s1
               else if type = JStr ''export-stl'' then p0_handleExportStl payload s1
               else Normal (s1\<lparr> p0_console := p0_console s1 @
                                 [ConsoleLog ''Unknown message type:'' [type]] \<rparr>))"

definition p0_requestStl :: "p0_state \<Rightarrow> p0_state" where
  "p0_requestStl s =
     (if \<not> p0_isReady s
      then s\<lparr> p0_alerts := p0_alerts s @
                 [''CADit is not ready yet. Please wait for it to load.''] \<rparr>
      else (p0_sendMessage ''get-stl'' JNull s)\<lparr> p0_statusText := Requesting \<rparr>)"

datatype p0_input = P0_Message event | P0_ClickInit | P0_ClickGetStl

fun p0_step :: "p0_input \<Rightarrow> p0_state \<Rightarrow> p0_state completion" where
  "p0_step (P0_Message ev) s = p0_handleMessage ev s"
| "p0_step P0_ClickInit s = Normal (p0_sendInit s)"
| "p0_step P0_ClickGetStl s = Normal (p0_requestStl s)"

fun p0_run :: "p0_input list \<Rightarrow> p0_state \<Rightarrow> p0_state" where
  "p0_run [] s = s"
| "p0_run (i # is) s = p0_run is (state_of (p0_step i s))"

section \<open>Messages of the protocol\<close>

definition payload_of :: "event \<Rightarrow> jsval" where
  "payload_of ev = read_prop (ev_data ev) ''payload''"

text \<open>
  An event counts as a \<^verbatim>\<open>ready\<close> (an \<^verbatim>\<open>export-stl\<close>) message from the embedded frame
  when it carries the trusted origin and its data has that tag, whatever else the data
  holds.
\<close>

definition trusted_ready :: "event \<Rightarrow> bool" where
  "trusted_ready ev \<longleftrightarrow>
     ev_origin ev = CADIT_ORIGIN \<and> read_prop (ev_data ev) ''type'' = JStr ''ready''"

definition trusted_export :: "event \<Rightarrow> bool" where
  "trusted_export ev \<longleftrightarrow>
     ev_origin ev = CADIT_ORIGIN \<and> read_prop (ev_data ev) ''type'' = JStr ''export-stl''"

text \<open>
  The version of a \<^verbatim>\<open>ready\<close> message can be shown in the status line: it is a string,
  as the protocol has it, or missing, or any other value whose conversion to a string
  completes.
\<close>

definition version_printable :: "event \<Rightarrow> bool" where
  "version_printable ev \<longleftrightarrow> stringifies (read_prop (payload_of ev) ''version'')"

text \<open>The inputs that store an artifact: an \<^verbatim>\<open>export-stl\<close> message from the trusted
  origin with a blob.\<close>

fun stores_artifact :: "input \<Rightarrow> bool" where
  "stores_artifact (Message ev) =
     (trusted_export ev \<and> truthy (read_prop (payload_of ev) ''blob''))"
| "stores_artifact i = False"

text \<open>The two \<^verbatim>\<open>postMessage\<close> calls the page can make.\<close>

definition init_out :: outbound where
  "init_out = \<lparr> om_message = message (JStr ''init'') init_payload, om_target = CADIT_ORIGIN \<rparr>"

definition get_stl_out :: outbound where
  "get_stl_out = \<lparr> om_message = message (JStr ''get-stl'') JNull, om_target = CADIT_ORIGIN \<rparr>"

section \<open>Example inputs\<close>

text \<open>
  Concrete events for the worked instances below: two \<^verbatim>\<open>ready\<close> messages with different
  versions, two exports, one of 512 bytes named \<^verbatim>\<open>part.stl\<close> and one of 2048 bytes
  named \<^verbatim>\<open>other.stl\<close>, an export of a blob without a file name, and the same messages
  from the origin that the second copy trusts.
\<close>

definition ready_1_0 :: event where
  "ready_1_0 = \<lparr> ev_origin = CADIT_ORIGIN,
                 ev_data = message (JStr ''ready'') (JObj [(''version'', JStr ''1.0'')]) \<rparr>"

definition ready_2_0 :: event where
  "ready_2_0 = \<lparr> ev_origin = CADIT_ORIGIN,
                 ev_data = message (JStr ''ready'') (JObj [(''version'', JStr ''2.0'')]) \<rparr>"

definition stl_a :: blob where
  "stl_a = Blob (replicate 512 (CHR ''a'')) ''model/stl''"

definition stl_b :: blob where
  "stl_b = Blob (replicate 2048 (CHR ''b'')) ''model/stl''"

definition export_event :: "jsval \<Rightarrow> event" where
  "export_event payload =
     \<lparr> ev_origin = CADIT_ORIGIN, ev_data = message (JStr ''export-stl'') payload \<rparr>"

definition export_a :: event where
  "export_a = export_event (JObj [(''blob'', JBlob stl_a), (''filename'', JStr ''part.stl'')])"

definition export_b :: event where
  "export_b = export_event (JObj [(''blob'', JBlob stl_b), (''filename'', JStr ''other.stl'')])"

definition export_blob_only :: event where
  "export_blob_only = export_event (JObj [(''blob'', JBlob stl_b)])"



definition p0_export_event :: "jsval \<Rightarrow> event" where
  "p0_export_event payload =
     \<lparr> ev_origin = p0_CADIT_ORIGIN, ev_data = message (JStr ''export-stl'') payload \<rparr>"

section \<open>Facts about values and single handlers\<close>

lemma read_prop_primitive: "\<not> is_object v \<Longrightarrow> read_prop v k = JUndefined"
  by (cases v) simp_all

lemma read_prop_nullish: "nullish v \<Longrightarrow> read_prop v k = JUndefined"
  by (cases v) simp_all

lemma tagged_not_nullish: "truthy (read_prop d k) \<Longrightarrow> \<not> nullish d"
  by (cases d) simp_all

lemma falsy_stringifies: "\<not> truthy v \<Longrightarrow> stringifies v"
  by (cases v) simp_all

lemma stringifies_js_or: "stringifies (js_or v (JStr u)) = stringifies v"
  by (auto simp: js_or_def falsy_stringifies)

lemma handleMessage_trusted:
  assumes "ev_origin ev = CADIT_ORIGIN"
    and "truthy (read_prop (ev_data ev) ''type'')"
    and "stringifies (read_prop (ev_data ev) ''type'')"
  shows "handleMessage ev s =
    (let type = read_prop (ev_data ev) ''type''; payload = payload_of ev;
         s1 = logEvent type Recv payload
                (s\<lparr> console := console s @ [ConsoleLog ''Received message: '' [type, payload]] \<rparr>)
     in if type = JStr ''ready'' then handleReady payload s1
        else if type = JStr ''export-stl'' then handleExportStl payload s1
        else Normal (s1\<lparr> console := console s1 @ [ConsoleLog ''Unknown message type:'' [type]] \<rparr>))"
  using assms tagged_not_nullish [OF assms(2)]
  by (simp add: handleMessage_def destructure_def Let_def payload_of_def)

lemma handleMessage_ready:
  assumes "trusted_ready ev"
  shows "handleMessage ev s =
    handleReady (payload_of ev)
      (logEvent (JStr ''ready'') Recv (payload_of ev)
         (s\<lparr> console := console s @
              [ConsoleLog ''Received message: '' [JStr ''ready'', payload_of ev]] \<rparr>))"
proof -
  from assms have o: "ev_origin ev = CADIT_ORIGIN"
    and t: "read_prop (ev_data ev) ''type'' = JStr ''ready''"
    by (simp_all add: trusted_ready_def)
  from t have "truthy (read_prop (ev_data ev) ''type'')"
    "stringifies (read_prop (ev_data ev) ''type'')" by simp_all
  from handleMessage_trusted [OF o this] t show ?thesis
    by (simp add: Let_def)
qed

lemma handleMessage_export:
  assumes "trusted_export ev"
  shows "handleMessage ev s =
    handleExportStl (payload_of ev)
      (logEvent (JStr ''export-stl'') Recv (payload_of ev)
         (s\<lparr> console := console s @
              [ConsoleLog ''Received message: '' [JStr ''export-stl'', payload_of ev]] \<rparr>))"
proof -
  from assms have o: "ev_origin ev = CADIT_ORIGIN"
    and t: "read_prop (ev_data ev) ''type'' = JStr ''export-stl''"
    by (simp_all add: trusted_export_def)
  from t have "truthy (read_prop (ev_data ev) ''type'')"
    "stringifies (read_prop (ev_data ev) ''type'')" by simp_all
  from handleMessage_trusted [OF o this] t show ?thesis
    by (simp add: Let_def)
qed

text \<open>What one handler does to the fields of the session.\<close>

lemma sendMessage_fields:
  "isReady (sendMessage t p s) = isReady s"
  "currentBlob (sendMessage t p s) = currentBlob s"
  "currentFilename (sendMessage t p s) = currentFilename s"
  "contentWindow (sendMessage t p s) = contentWindow s"
  "statusText (sendMessage t p s) = statusText s"
  "getStlBtn_disabled (sendMessage t p s) = getStlBtn_disabled s"
  "alerts (sendMessage t p s) = alerts s"
  "outbox (sendMessage t p s) =
     outbox s @ (if contentWindow s
                 then [\<lparr> om_message = message (JStr t) p, om_target = CADIT_ORIGIN \<rparr>] else [])"
  "eventLog (sendMessage t p s) =
     (if contentWindow s then [\<lparr> le_type = JStr t, le_direction = Sent, le_data = p \<rparr>] else [])
     @ eventLog s"
  by (simp_all add: sendMessage_def logEvent_def)

lemma sendInit_fields:
  "isReady (sendInit s) = isReady s"
  "currentBlob (sendInit s) = currentBlob s"
  "currentFilename (sendInit s) = currentFilename s"
  "contentWindow (sendInit s) = contentWindow s"
  "statusText (sendInit s) = Initialized PARTNER_NAME"
  "getStlBtn_disabled (sendInit s) = getStlBtn_disabled s"
  "alerts (sendInit s) = alerts s"
  "outbox (sendInit s) = outbox s @ (if contentWindow s then [init_out] else [])"
  "eventLog (sendInit s) =
     (if contentWindow s
      then [\<lparr> le_type = JStr ''init'', le_direction = Sent, le_data = init_payload \<rparr>] else [])
     @ eventLog s"
  by (simp_all add: sendInit_def sendMessage_fields init_out_def)

lemma handleReady_fields:
  "isReady (state_of (handleReady p s))"
  "currentBlob (state_of (handleReady p s)) = currentBlob s"
  "currentFilename (state_of (handleReady p s)) = currentFilename s"
  "contentWindow (state_of (handleReady p s)) = contentWindow s"
  "alerts (state_of (handleReady p s)) = alerts s"
  "outbox (state_of (handleReady p s)) =
     outbox s @ (if stringifies (read_prop p ''version'') \<and> contentWindow s
                 then [init_out] else [])"
  "eventLog (state_of (handleReady p s)) =
     (if stringifies (read_prop p ''version'') \<and> contentWindow s
      then [\<lparr> le_type = JStr ''init'', le_direction = Sent, le_data = init_payload \<rparr>]
      else [])
     @ eventLog s"
  by (simp_all add: handleReady_def Let_def sendInit_fields stringifies_js_or)

text \<open>With a version that can be shown, \<^verbatim>\<open>handleReady\<close> returns; the status line it
  leaves is the one of \<^verbatim>\<open>sendInit\<close>, which overwrites \<^verbatim>\<open>CADit ready (v...)\<close>.\<close>

lemma handleReady_printable:
  assumes "stringifies (read_prop p ''version'')"
  shows "returns (handleReady p s)"
    and "statusText (state_of (handleReady p s)) = Initialized PARTNER_NAME"
    and "getStlBtn_disabled (state_of (handleReady p s)) = False"
  using assms by (simp_all add: handleReady_def Let_def sendInit_fields stringifies_js_or)

lemma handleExportStl_fields:
  "isReady (state_of (handleExportStl p s)) = isReady s"
  "contentWindow (state_of (handleExportStl p s)) = contentWindow s"
  "outbox (state_of (handleExportStl p s)) = outbox s"
  "alerts (state_of (handleExportStl p s)) = alerts s"
  "getStlBtn_disabled (state_of (handleExportStl p s)) = getStlBtn_disabled s"
  "currentBlob (state_of (handleExportStl p s)) =
     (if truthy (read_prop p ''blob'') then read_prop p ''blob'' else currentBlob s)"
  "currentFilename (state_of (handleExportStl p s)) =
     (if truthy (read_prop p ''blob'')
      then js_or (read_prop p ''filename'') (JStr ''design.stl'') else currentFilename s)"
  by (simp_all add: handleExportStl_def Let_def split: jsval.split)

lemma handleMessage_fields:
  "contentWindow (state_of (handleMessage ev s)) = contentWindow s"
  "isReady s \<Longrightarrow> isReady (state_of (handleMessage ev s))"
  "truthy (currentBlob s) \<Longrightarrow> truthy (currentBlob (state_of (handleMessage ev s)))"
  by (simp_all add: handleMessage_def destructure_def Let_def logEvent_def
      handleReady_fields handleExportStl_fields)

lemma handleMessage_outbox:
  "outbox (state_of (handleMessage ev s)) =
     outbox s @ (if trusted_ready ev \<and> version_printable ev \<and> contentWindow s
                 then [init_out] else [])"
  by (simp add: handleMessage_def destructure_def Let_def logEvent_def trusted_ready_def
      version_printable_def payload_of_def handleReady_fields handleExportStl_fields
      read_prop_nullish)

lemma downloadStl_fields:
  "isReady (state_of (downloadStl s)) = isReady s"
  "currentBlob (state_of (downloadStl s)) = currentBlob s"
  "currentFilename (state_of (downloadStl s)) = currentFilename s"
  "contentWindow (state_of (downloadStl s)) = contentWindow s"
  "outbox (state_of (downloadStl s)) = outbox s"
  by (simp_all add: downloadStl_def split: jsval.split)

lemma requestStl_fields:
  "isReady (requestStl s) = isReady s"
  "currentBlob (requestStl s) = currentBlob s"
  "currentFilename (requestStl s) = currentFilename s"
  "contentWindow (requestStl s) = contentWindow s"
  "outbox (requestStl s) =
     outbox s @ (if isReady s \<and> contentWindow s then [get_stl_out] else [])"
  "alerts (requestStl s) =
     alerts s @ (if isReady s then []
                 else [''CADit is not ready yet. Please wait for it to load.''])"
  by (simp_all add: requestStl_def sendMessage_fields get_stl_out_def)

section \<open>Facts about sequences of events\<close>

lemma step_contentWindow: "contentWindow (state_of (step i s)) = contentWindow s"
  by (cases i) (simp_all add: handleMessage_fields requestStl_fields downloadStl_fields)

lemma step_isReady: "isReady s \<Longrightarrow> isReady (state_of (step i s))"
  by (cases i) (simp_all add: handleMessage_fields requestStl_fields downloadStl_fields)

lemma step_currentBlob: "truthy (currentBlob s) \<Longrightarrow> truthy (currentBlob (state_of (step i s)))"
  by (cases i) (simp_all add: handleMessage_fields requestStl_fields downloadStl_fields)

lemma step_outbox:
  "\<exists>ms. outbox (state_of (step i s)) = outbox s @ ms \<and> set ms \<subseteq> {init_out, get_stl_out}"
proof (cases i)
  case (Message ev)
  then show ?thesis by (auto simp: handleMessage_outbox)
next
  case ClickGetStl
  then show ?thesis by (auto simp: requestStl_fields)
next
  case ClickDownload
  then show ?thesis by (simp add: downloadStl_fields)
qed

lemma run_contentWindow: "contentWindow (run ins s) = contentWindow s"
  by (induction ins arbitrary: s) (simp_all add: step_contentWindow)

lemma run_isReady: "isReady s \<Longrightarrow> isReady (run ins s)"
  by (induction ins arbitrary: s) (simp_all add: step_isReady)

lemma run_currentBlob: "truthy (currentBlob s) \<Longrightarrow> truthy (currentBlob (run ins s))"
  by (induction ins arbitrary: s) (simp_all add: step_currentBlob)

lemma run_append: "run (xs @ ys) s = run ys (run xs s)"
  by (induction xs arbitrary: s) simp_all

lemma run_outbox:
  "\<exists>ms. outbox (run ins s) = outbox s @ ms \<and> set ms \<subseteq> {init_out, get_stl_out}"
proof (induction ins arbitrary: s)
  case Nil
  then show ?case by simp
next
  case (Cons i ins)
  obtain ms where ms: "outbox (state_of (step i s)) = outbox s @ ms"
    "set ms \<subseteq> {init_out, get_stl_out}"
    using step_outbox by blast
  obtain ns where ns: "outbox (run ins (state_of (step i s))) = outbox (state_of (step i s)) @ ns"
    "set ns \<subseteq> {init_out, get_stl_out}"
    using Cons.IH by blast
  from ms ns have "outbox (run (i # ins) s) = outbox s @ (ms @ ns)"
    "set (ms @ ns) \<subseteq> {init_out, get_stl_out}"
    by simp_all
  then show ?case by blast
qed

lemma CADIT_ORIGIN_not_wildcard: "CADIT_ORIGIN \<noteq> ''*''"
  by (simp add: CADIT_ORIGIN_def)

lemma run_outbox_targets:
  assumes "\<forall>m\<in>set (outbox s). om_target m = CADIT_ORIGIN"
  shows "\<forall>m\<in>set (outbox (run ins s)). om_target m = CADIT_ORIGIN"
proof -
  obtain ms where ms: "outbox (run ins s) = outbox s @ ms" "set ms \<subseteq> {init_out, get_stl_out}"
    using run_outbox by blast
  have "om_target init_out = CADIT_ORIGIN" "om_target get_stl_out = CADIT_ORIGIN"
    by (simp_all add: init_out_def get_stl_out_def)
  with ms(2) have "\<forall>m\<in>set ms. om_target m = CADIT_ORIGIN" by auto
  with assms ms(1) show ?thesis by auto
qed

text \<open>Sequences of \<^verbatim>\<open>ready\<close> messages, and the definitions that evaluate a run.\<close>

lemmas run_simps = handleMessage_def destructure_def message_def page_loaded_def
      handleReady_def sendInit_def sendMessage_def logEvent_def requestStl_def
      handleExportStl_def downloadStl_def init_out_def get_stl_out_def init_payload_def
      js_or_def Let_def

lemma ready_run_outbox:
  assumes "contentWindow s" and "\<forall>ev\<in>set evs. trusted_ready ev \<and> version_printable ev"
  shows "outbox (run (map Message evs) s) = outbox s @ replicate (length evs) init_out"
  using assms
proof (induction evs arbitrary: s)
  case Nil
  then show ?case by simp
next
  case (Cons ev evs)
  let ?s1 = "state_of (handleMessage ev s)"
  from Cons.prems have out: "outbox ?s1 = outbox s @ [init_out]"
    by (simp add: handleMessage_outbox)
  from Cons.prems have "contentWindow ?s1"
    by (simp add: handleMessage_fields)
  with Cons.IH [of ?s1] Cons.prems
  have "outbox (run (map Message evs) ?s1) = outbox ?s1 @ replicate (length evs) init_out"
    by simp
  with out show ?case by simp
qed

lemma trusted_export_event: "trusted_export (export_event p)" "payload_of (export_event p) = p"
  by (simp_all add: trusted_export_def export_event_def message_def payload_of_def)

lemma export_run_artifact:
  assumes "trusted_export ev" and "truthy (read_prop (payload_of ev) ''blob'')"
  shows "currentBlob (run (before @ [Message ev]) s) = read_prop (payload_of ev) ''blob''"
    and "currentFilename (run (before @ [Message ev]) s) =
           js_or (read_prop (payload_of ev) ''filename'') (JStr ''design.stl'')"
  using assms by (simp_all add: run_append handleMessage_export handleExportStl_fields)

text \<open>A payload without a file name (missing or empty) is stored under \<^verbatim>\<open>design.stl\<close>.\<close>

lemma export_default_filename:
  assumes "trusted_export ev" and "truthy (read_prop (payload_of ev) ''blob'')"
    and "\<not> truthy (read_prop (payload_of ev) ''filename'')"
  shows "currentFilename (run (before @ [Message ev]) s) = JStr ''design.stl''"
  using assms by (simp add: export_run_artifact js_or_def)

text \<open>The artifact changes only when an export with a blob arrives, and then both of its
  parts are assigned; neither is ever falsy again.\<close>

lemma handleMessage_artifact:
  "currentBlob (state_of (handleMessage ev s)) =
     (if stores_artifact (Message ev) then read_prop (payload_of ev) ''blob'' else currentBlob s)"
  "currentFilename (state_of (handleMessage ev s)) =
     (if stores_artifact (Message ev)
      then js_or (read_prop (payload_of ev) ''filename'') (JStr ''design.stl'')
      else currentFilename s)"
  by (simp_all add: handleMessage_def destructure_def Let_def logEvent_def trusted_export_def
      payload_of_def handleReady_fields handleExportStl_fields read_prop_nullish)

lemma step_artifact:
  assumes "\<not> stores_artifact i"
  shows "currentBlob (state_of (step i s)) = currentBlob s \<and>
         currentFilename (state_of (step i s)) = currentFilename s"
proof (cases i)
  case (Message ev)
  with assms show ?thesis by (auto simp: handleMessage_artifact)
next
  case ClickGetStl
  then show ?thesis by (simp add: requestStl_fields)
next
  case ClickDownload
  then show ?thesis by (simp add: downloadStl_fields)
qed

lemma run_artifact:
  assumes "\<forall>i\<in>set ins. \<not> stores_artifact i"
  shows "currentBlob (run ins s) = currentBlob s \<and> currentFilename (run ins s) = currentFilename s"
  using assms by (induction ins arbitrary: s) (simp_all add: step_artifact)

lemma truthy_js_or: "truthy (js_or v (JStr ''design.stl''))"
  by (simp add: js_or_def)

lemma step_currentFilename:
  assumes "truthy (currentFilename s)"
  shows "truthy (currentFilename (state_of (step i s)))"
proof (cases "stores_artifact i")
  case True
  then obtain ev where "i = Message ev" by (cases i) simp_all
  with True show ?thesis by (simp add: handleMessage_artifact truthy_js_or)
next
  case False
  with assms show ?thesis by (simp add: step_artifact)
qed

lemma run_currentFilename:
  "truthy (currentFilename s) \<Longrightarrow> truthy (currentFilename (run ins s))"
  by (induction ins arbitrary: s) (simp_all add: step_currentFilename)

lemma ready_step_fields:
  assumes "trusted_ready ev"
  shows "isReady (state_of (handleMessage ev s))"
    and "currentBlob (state_of (handleMessage ev s)) = currentBlob s"
    and "currentFilename (state_of (handleMessage ev s)) = currentFilename s"
  using assms by (simp_all add: handleMessage_ready handleReady_fields logEvent_def)

lemma ready_step_status:
  assumes "trusted_ready ev" and "version_printable ev"
  shows "returns (handleMessage ev s)"
    and "statusText (state_of (handleMessage ev s)) = Initialized PARTNER_NAME"
    and "getStlBtn_disabled (state_of (handleMessage ev s)) = False"
  using assms
  by (simp_all add: handleMessage_ready handleReady_printable version_printable_def)

lemma ready_step_eventLog:
  assumes "trusted_ready ev"
  shows "find (\<lambda>e. le_direction e = Recv) (eventLog (state_of (handleMessage ev s))) =
           Some \<lparr> le_type = JStr ''ready'', le_direction = Recv, le_data = payload_of ev \<rparr>"
  using assms by (simp add: handleMessage_ready handleReady_fields logEvent_def)

lemma ready_run_artifact:
  assumes "\<forall>ev\<in>set evs. trusted_ready ev"
  shows "currentBlob (run (map Message evs) s) = currentBlob s \<and>
         currentFilename (run (map Message evs) s) = currentFilename s"
  using assms by (induction evs arbitrary: s) (simp_all add: ready_step_fields)

lemma run_snoc_message:
  assumes "evs \<noteq> []"
  shows "run (map Message evs) s =
           state_of (handleMessage (last evs) (run (map Message (butlast evs)) s))"
proof -
  from assms have "map Message evs = map Message (butlast evs) @ [Message (last evs)]"
    by (metis append_butlast_last_id list.simps(8,9) map_append)
  then show ?thesis by (simp add: run_append)
qed

text \<open>Any other tag that is truthy and converts to a string, and the cases where a
  conversion to a string throws.\<close>

lemma handleMessage_unknown:
  assumes "ev_origin ev = CADIT_ORIGIN"
    and "truthy (read_prop (ev_data ev) ''type'')"
    and "stringifies (read_prop (ev_data ev) ''type'')"
    and "read_prop (ev_data ev) ''type'' \<noteq> JStr ''ready''"
    and "read_prop (ev_data ev) ''type'' \<noteq> JStr ''export-stl''"
  shows "handleMessage ev s =
           Normal (s\<lparr> console := console s @
                        [ConsoleLog ''Received message: ''
                           [read_prop (ev_data ev) ''type'', payload_of ev],
                         ConsoleLog ''Unknown message type:'' [read_prop (ev_data ev) ''type'']],
                      eventLog := \<lparr> le_type = read_prop (ev_data ev) ''type'',
                                     le_direction = Recv,
                                     le_data = payload_of ev \<rparr> # eventLog s \<rparr>)"
  using assms by (simp add: handleMessage_trusted logEvent_def Let_def)

lemma handleMessage_unprintable_tag:
  assumes "ev_origin ev = CADIT_ORIGIN"
    and "truthy (read_prop (ev_data ev) ''type'')"
    and "\<not> stringifies (read_prop (ev_data ev) ''type'')"
  shows "handleMessage ev s = Throw TypeError s"
  using assms tagged_not_nullish [OF assms(2)]
  by (simp add: handleMessage_def destructure_def)

lemma handleMessage_unprintable_version:
  assumes "ev_origin ev = CADIT_ORIGIN"
    and "read_prop (ev_data ev) ''type'' = JStr ''ready''"
    and "\<not> stringifies (read_prop (payload_of ev) ''version'')"
  shows "handleMessage ev s =
           Throw TypeError
             (s\<lparr> console := console s @
                   [ConsoleLog ''Received message: '' [JStr ''ready'', payload_of ev]],
                 eventLog := \<lparr> le_type = JStr ''ready'', le_direction = Recv,
                                le_data = payload_of ev \<rparr> # eventLog s,
                 isReady := True \<rparr>)"
proof -
  from assms(2) have "truthy (read_prop (ev_data ev) ''type'')"
    "stringifies (read_prop (ev_data ev) ''type'')" by simp_all
  from handleMessage_trusted [OF assms(1) this] assms(2,3) show ?thesis
    by (simp add: Let_def handleReady_def logEvent_def stringifies_js_or)
qed

section \<open>The claims of the specification\<close>

text \<open>
  Claim C1. An event whose origin is not exactly the string \<open>CADIT_ORIGIN\<close> is dropped:
  \<^verbatim>\<open>handleMessage\<close> returns without throwing, the ready flag, the stored blob, the stored
  file name and the outbox are as before, and so is every other field of the state with
  the one exception of the browser console, where \<^verbatim>\<open>script.js\<close> leaves a debugging line
  when the foreign data carries a tag. The instance after the theorem is an origin that
  differs from the trusted one in the case of one letter.
\<close>

theorem untrusted_origin_dropped:
  assumes "ev_origin ev \<noteq> CADIT_ORIGIN"
  shows "returns (handleMessage ev s) \<and>
         isReady (state_of (handleMessage ev s)) = isReady s \<and>
         currentBlob (state_of (handleMessage ev s)) = currentBlob s \<and>
         currentFilename (state_of (handleMessage ev s)) = currentFilename s \<and>
         outbox (state_of (handleMessage ev s)) = outbox s \<and>
         (state_of (handleMessage ev s))\<lparr> console := console s \<rparr> = s"
  using assms by (simp add: handleMessage_def)

theorem untrusted_origin_dropped_witness:
  "''https://App.cadit.app'' \<noteq> CADIT_ORIGIN \<and>
   handleMessage \<lparr> ev_origin = ''https://App.cadit.app'',
                   ev_data = message (JStr ''ready'') (JObj [(''version'', JStr ''1.0'')]) \<rparr>
     page_loaded =
   Normal (page_loaded\<lparr> console :=
     [ConsoleLog ''Ignored message from origin: https://App.cadit.app (expected: https://app.cadit.app)'' []] \<rparr>)"
  using untrusted_origin_dropped
    [of "\<lparr> ev_origin = ''https://App.cadit.app'',
           ev_data = message (JStr ''ready'') (JObj [(''version'', JStr ''1.0'')]) \<rparr>" page_loaded]
  by (simp add: CADIT_ORIGIN_def handleMessage_def message_def page_loaded_def)

text \<open>
  Claim C2. Every \<^verbatim>\<open>postMessage\<close> call names \<open>CADIT_ORIGIN\<close> as its target, never the
  wildcard \<^verbatim>\<open>*\<close>: for \<^verbatim>\<open>sendMessage\<close> with any tag and payload, and for the outbox after
  any sequence of inbound events and button clicks, starting from a state whose outbox
  holds only such messages (the empty outbox of the loaded page, for one).
\<close>

theorem outbound_only_to_trusted_origin:
  assumes "\<forall>m\<in>set (outbox s). om_target m = CADIT_ORIGIN"
  shows "(\<forall>m\<in>set (outbox (sendMessage type payload s)).
            om_target m = CADIT_ORIGIN \<and> om_target m \<noteq> ''*'') \<and>
         (\<forall>m\<in>set (outbox (run ins s)).
            om_target m = CADIT_ORIGIN \<and> om_target m \<noteq> ''*'')"
proof -
  have "\<forall>m\<in>set (outbox (sendMessage type payload s)). om_target m = CADIT_ORIGIN"
    using assms by (auto simp: sendMessage_fields)
  moreover have "\<forall>m\<in>set (outbox (run ins s)). om_target m = CADIT_ORIGIN"
    using assms by (rule run_outbox_targets)
  ultimately show ?thesis
    using CADIT_ORIGIN_not_wildcard by simp
qed

theorem outbound_only_to_trusted_origin_witness:
  "map om_target (outbox (run [Message ready_1_0, ClickGetStl] page_loaded)) =
     [CADIT_ORIGIN, CADIT_ORIGIN] \<and>
   map om_target (outbox (sendMessage ''get-stl'' JNull page_loaded)) = [CADIT_ORIGIN] \<and>
   CADIT_ORIGIN \<noteq> ''*''"
  using outbound_only_to_trusted_origin
    [of page_loaded "''get-stl''" JNull "[Message ready_1_0, ClickGetStl]"]
  by (simp add: run_simps ready_1_0_def CADIT_ORIGIN_def)

text \<open>
  Claim C3 says that the page sends \<^verbatim>\<open>init\<close> once, on first becoming ready, however many
  \<^verbatim>\<open>ready\<close> messages follow. \<^verbatim>\<open>handleReady\<close> calls \<^verbatim>\<open>sendInit\<close> without looking at
  \<^verbatim>\<open>isReady\<close>: two \<^verbatim>\<open>ready\<close> messages to the loaded page leave two \<^verbatim>\<open>init\<close> messages
  in the outbox.
\<close>

theorem init_sent_twice_counterexample:
  "outbox (run [Message ready_1_0, Message ready_1_0] page_loaded) = [init_out, init_out]"
  by (simp add: run_simps ready_1_0_def)

text \<open>
  Claim C3, as the script behaves: while the frame's window is available, every
  \<^verbatim>\<open>ready\<close> message from the trusted origin whose version can be shown adds exactly one
  \<^verbatim>\<open>init\<close> message to the outbox, so \<open>n\<close> of them add \<open>n\<close>. Each carries the partner
  name and the feature list \<^verbatim>\<open>['export']\<close> and is addressed to the trusted origin.
\<close>

theorem init_sent_per_ready:
  assumes "contentWindow s" and "\<forall>ev\<in>set evs. trusted_ready ev \<and> version_printable ev"
  shows "outbox (run (map Message evs) s) = outbox s @ replicate (length evs) init_out \<and>
         om_target init_out = CADIT_ORIGIN \<and>
         om_message init_out =
           JObj [(''type'', JStr ''init''),
                 (''payload'', JObj [(''partnerName'', JStr PARTNER_NAME),
                                     (''features'', JArr [JStr ''export''])])]"
  using ready_run_outbox [OF assms]
  by (simp add: init_out_def message_def init_payload_def)

theorem init_sent_per_ready_witness:
  "contentWindow page_loaded \<and>
   trusted_ready ready_1_0 \<and> version_printable ready_1_0 \<and>
   trusted_ready ready_2_0 \<and> version_printable ready_2_0 \<and>
   outbox (run [Message ready_1_0, Message ready_2_0, Message ready_1_0] page_loaded) =
     [init_out, init_out, init_out]"
proof -
  have a: "contentWindow page_loaded" by (simp add: page_loaded_def)
  have b: "\<forall>ev\<in>set [ready_1_0, ready_2_0, ready_1_0]. trusted_ready ev \<and> version_printable ev"
    by (simp add: trusted_ready_def version_printable_def payload_of_def
        ready_1_0_def ready_2_0_def message_def)
  from init_sent_per_ready [OF a b] a b show ?thesis
    by (simp add: page_loaded_def)
qed




text \<open>
  In \<^verbatim>\<open>script.js\<close> an \<^verbatim>\<open>export-stl\<close> message from the trusted origin whose payload has
  no blob (\<^verbatim>\<open>payload?.blob\<close> is falsy: the payload is missing, is not an object, or
  its \<^verbatim>\<open>blob\<close> is missing or falsy) is answered with the status line
  \<^verbatim>\<open>Error: No STL data received\<close> and an error on the console; the stored blob and file
  name keep their values and nothing is sent.
\<close>

theorem export_without_blob:
  assumes "trusted_export ev" and "\<not> truthy (read_prop (payload_of ev) ''blob'')"
  shows "returns (handleMessage ev s) \<and>
         statusText (state_of (handleMessage ev s)) = NoStlData \<and>
         currentBlob (state_of (handleMessage ev s)) = currentBlob s \<and>
         currentFilename (state_of (handleMessage ev s)) = currentFilename s \<and>
         outbox (state_of (handleMessage ev s)) = outbox s \<and>
         last (console (state_of (handleMessage ev s))) =
           ConsoleError ''No blob in export-stl payload''"
  using assms by (simp add: handleMessage_export handleExportStl_def logEvent_def)

theorem export_without_blob_witness:
  "trusted_export (export_event (JObj [])) \<and>
   \<not> truthy (read_prop (payload_of (export_event (JObj []))) ''blob'') \<and>
   statusText (run [Message export_a, Message (export_event (JObj []))] page_loaded) = NoStlData \<and>
   currentBlob (run [Message export_a, Message (export_event (JObj []))] page_loaded) = JBlob stl_a \<and>
   currentFilename (run [Message export_a, Message (export_event (JObj []))] page_loaded) =
     JStr ''part.stl''"
proof -
  have a: "trusted_export (export_event (JObj []))"
    and b: "\<not> truthy (read_prop (payload_of (export_event (JObj []))) ''blob'')"
    by (simp_all add: trusted_export_event)
  have c: "currentBlob (run [Message export_a] page_loaded) = JBlob stl_a"
    "currentFilename (run [Message export_a] page_loaded) = JStr ''part.stl''"
    by (simp_all add: export_a_def handleMessage_export trusted_export_event
        handleExportStl_fields js_or_def)
  from export_without_blob [OF a b, of "run [Message export_a] page_loaded"] a b c
  show ?thesis by simp
qed

text \<open>
  Claim C5. A received \<^verbatim>\<open>export-stl\<close> message whose payload lacks the blob is to be
  surfaced as a user-visible status message. \<^verbatim>\<open>script.js\<close> does so (above). The second
  copy does not: on the payload \<^verbatim>\<open>{}\<close> its \<^verbatim>\<open>handleExportStl\<close> writes an error to
  the console and returns; the status line still shows the text of the page and no alert
  is raised, where \<^verbatim>\<open>script.js\<close> on the same payload shows
  \<^verbatim>\<open>Error: No STL data received\<close>.
\<close>

theorem p0_export_without_blob_silent:
  "p0_handleMessage (p0_export_event (JObj [])) p0_page_loaded =
     Normal (p0_page_loaded\<lparr> p0_console := [ConsoleError ''No blob in export-stl payload''],
       p0_eventLog := \<lparr> le_type = JStr ''export-stl'', le_direction = Recv, le_data = JObj [] \<rparr>
                      # p0_eventLog p0_page_loaded \<rparr>) \<and>
   p0_statusText (state_of (p0_handleMessage (p0_export_event (JObj [])) p0_page_loaded)) =
     PageText \<and>
   p0_alerts (state_of (p0_handleMessage (p0_export_event (JObj [])) p0_page_loaded)) = [] \<and>
   statusText (state_of (handleMessage (export_event (JObj [])) page_loaded)) = NoStlData"
  by (simp add: p0_handleMessage_def p0_export_event_def destructure_def message_def
      p0_handleExportStl_def p0_logEvent_def p0_page_loaded_def Let_def
      handleMessage_export trusted_export_event handleExportStl_def logEvent_def)

text \<open>
  Claim C6. After any history \<open>before\<close>, an \<^verbatim>\<open>export-stl\<close> message from the trusted
  origin with a blob sets \<^verbatim>\<open>currentBlob\<close> to exactly that blob and
  \<^verbatim>\<open>currentFilename\<close> to exactly the file name of the payload, or to \<^verbatim>\<open>design.stl\<close>
  when the payload has none (missing or empty, by the test of \<^verbatim>\<open>||\<close>). Nothing of the
  artifact stored before survives: an export of a blob alone does not keep the old file
  name. The artifact is never cleared: whatever events and clicks come \<open>after\<close>, blob
  and file name stay truthy, and they stay exactly as stored until the next export with
  a blob.
\<close>

theorem export_sets_artifact:
  assumes "trusted_export ev" and "truthy (read_prop (payload_of ev) ''blob'')"
  shows "currentBlob (run (before @ [Message ev]) s) = read_prop (payload_of ev) ''blob'' \<and>
         currentFilename (run (before @ [Message ev]) s) =
           (if truthy (read_prop (payload_of ev) ''filename'')
            then read_prop (payload_of ev) ''filename'' else JStr ''design.stl'') \<and>
         truthy (currentBlob (run (before @ [Message ev] @ after) s)) \<and>
         truthy (currentFilename (run (before @ [Message ev] @ after) s)) \<and>
         ((\<forall>i\<in>set after. \<not> stores_artifact i) \<longrightarrow>
            currentBlob (run (before @ [Message ev] @ after) s) =
              currentBlob (run (before @ [Message ev]) s) \<and>
            currentFilename (run (before @ [Message ev] @ after) s) =
              currentFilename (run (before @ [Message ev]) s))"
proof -
  let ?s1 = "run (before @ [Message ev]) s"
  let ?s2 = "run (before @ [Message ev] @ after) s"
  have split: "?s2 = run after ?s1"
    by (simp add: run_append)
  have b: "currentBlob ?s1 = read_prop (payload_of ev) ''blob''"
    using assms by (simp add: export_run_artifact)
  have f: "currentFilename ?s1 =
             (if truthy (read_prop (payload_of ev) ''filename'')
              then read_prop (payload_of ev) ''filename'' else JStr ''design.stl'')"
    using assms by (simp add: export_run_artifact js_or_def)
  from b assms(2) have "truthy (currentBlob ?s1)" by simp
  then have tb: "truthy (currentBlob ?s2)"
    unfolding split by (rule run_currentBlob)
  from f have "truthy (currentFilename ?s1)" by simp
  then have tf: "truthy (currentFilename ?s2)"
    unfolding split by (rule run_currentFilename)
  have keep: "currentBlob ?s2 = currentBlob ?s1 \<and> currentFilename ?s2 = currentFilename ?s1"
    if "\<forall>i\<in>set after. \<not> stores_artifact i"
    unfolding split using that by (rule run_artifact)
  from keep have k: "(\<forall>i\<in>set after. \<not> stores_artifact i) \<longrightarrow>
      currentBlob ?s2 = currentBlob ?s1 \<and> currentFilename ?s2 = currentFilename ?s1"
    by (rule impI)
  from b f tb tf k show ?thesis by (intro conjI)
qed

theorem export_sets_artifact_witness:
  "trusted_export export_blob_only \<and>
   truthy (read_prop (payload_of export_blob_only) ''blob'') \<and>
   currentFilename (run [Message export_a] page_loaded) = JStr ''part.stl'' \<and>
   currentBlob (run [Message export_a, Message export_blob_only] page_loaded) = JBlob stl_b \<and>
   currentFilename (run [Message export_a, Message export_blob_only] page_loaded) =
     JStr ''design.stl'' \<and>
   currentBlob (run [Message export_a, Message export_blob_only,
                     ClickDownload, Message ready_1_0, ClickGetStl] page_loaded) = JBlob stl_b \<and>
   currentFilename (run [Message export_a, Message export_blob_only,
                     ClickDownload, Message ready_1_0, ClickGetStl] page_loaded) =
     JStr ''design.stl''"
proof -
  have a: "trusted_export export_blob_only"
    and b: "truthy (read_prop (payload_of export_blob_only) ''blob'')"
    and f: "\<not> truthy (read_prop (payload_of export_blob_only) ''filename'')"
    and v: "read_prop (payload_of export_blob_only) ''blob'' = JBlob stl_b"
    by (simp_all add: export_blob_only_def trusted_export_event)
  have c: "\<forall>i\<in>set [ClickDownload, Message ready_1_0, ClickGetStl]. \<not> stores_artifact i"
    by (simp add: trusted_export_def ready_1_0_def message_def)
  have d: "currentFilename (run [Message export_a] page_loaded) = JStr ''part.stl''"
    using export_run_artifact(2) [of export_a "[]" page_loaded]
    by (simp add: export_a_def trusted_export_event js_or_def)
  from export_sets_artifact [OF a b, of "[Message export_a]" page_loaded
      "[ClickDownload, Message ready_1_0, ClickGetStl]"] a b c d f v
  show ?thesis by simp
qed

text \<open>
  What holds of the ready flag. After one or more \<^verbatim>\<open>ready\<close> messages from the trusted
  origin the session is in the state a single \<^verbatim>\<open>ready\<close> message (the last one) would
  have produced: the flag is set and the artifact is untouched; status line and request
  button agree as well when the version of the last message can be shown. The flag is
  never reset: it is still set after any \<open>later\<close> events and clicks.
\<close>

theorem ready_idempotent:
  assumes "evs \<noteq> []" and "\<forall>ev\<in>set evs. trusted_ready ev"
  shows "let many = run (map Message evs) s; once = run [Message (last evs)] s in
         isReady many \<and> isReady once \<and>
         currentBlob many = currentBlob once \<and>
         currentFilename many = currentFilename once \<and>
         (version_printable (last evs) \<longrightarrow>
            statusText many = statusText once \<and>
            getStlBtn_disabled many = getStlBtn_disabled once) \<and>
         isReady (run later many)"
proof -
  let ?many = "run (map Message evs) s"
  let ?once = "run [Message (last evs)] s"
  from assms have lst: "trusted_ready (last evs)" by simp
  from assms(2) have bl: "\<forall>ev\<in>set (butlast evs). trusted_ready ev"
    by (auto dest: in_set_butlastD)
  note snoc = run_snoc_message [OF assms(1), of s]
  have ready: "isReady ?many" "isReady ?once"
    using lst by (simp_all add: snoc ready_step_fields)
  have status: "statusText ?many = statusText ?once"
    "getStlBtn_disabled ?many = getStlBtn_disabled ?once"
    if "version_printable (last evs)"
    using lst that by (simp_all add: snoc ready_step_status)
  have artifact: "currentBlob ?many = currentBlob ?once"
    "currentFilename ?many = currentFilename ?once"
    using lst ready_run_artifact [OF bl, of s] by (simp_all add: snoc ready_step_fields)
  have "isReady (run later ?many)"
    using ready(1) by (rule run_isReady)
  with ready status artifact show ?thesis
    unfolding Let_def by simp
qed

theorem ready_idempotent_witness:
  "trusted_ready ready_1_0 \<and> trusted_ready ready_2_0 \<and> version_printable ready_2_0 \<and>
   isReady (run [Message ready_1_0, Message ready_1_0, Message ready_2_0] page_loaded) \<and>
   statusText (run [Message ready_1_0, Message ready_1_0, Message ready_2_0] page_loaded) =
     statusText (run [Message ready_2_0] page_loaded) \<and>
   isReady (run [ClickGetStl, ClickDownload]
             (run [Message ready_1_0, Message ready_1_0, Message ready_2_0] page_loaded))"
proof -
  have a: "[ready_1_0, ready_1_0, ready_2_0] \<noteq> []" by simp
  have b: "\<forall>ev\<in>set [ready_1_0, ready_1_0, ready_2_0]. trusted_ready ev"
    by (simp add: trusted_ready_def ready_1_0_def ready_2_0_def message_def)
  have p: "payload_of ready_2_0 = JObj [(''version'', JStr ''2.0'')]"
    by (simp add: payload_of_def ready_2_0_def message_def)
  have v: "version_printable ready_2_0"
    by (simp add: version_printable_def p)
  from ready_idempotent [OF a b, of page_loaded "[ClickGetStl, ClickDownload]"] b p v
  show ?thesis unfolding Let_def by simp
qed


text \<open>
  Claim C8. Destructuring the object \<^verbatim>\<open>{ type, payload }\<close> that \<^verbatim>\<open>sendMessage\<close> builds
  gives back the tag and the payload, for every tag and every payload; the payload is not
  inspected.
\<close>

theorem message_roundtrip:
  "destructure (message (JStr tag) payload) = Inr (JStr tag, payload)"
  by (simp add: destructure_def message_def)

text \<open>
  Claim C9. A message from the trusted origin whose tag is a non-empty string other than
  \<^verbatim>\<open>ready\<close> and \<^verbatim>\<open>export-stl\<close> is logged and ignored: \<^verbatim>\<open>handleMessage\<close> returns
  without throwing, and the state differs from the one before only by two console lines
  and one entry in the event log. Ready flag, artifact, status line and outbox are as
  before.
\<close>

theorem unknown_tag_ignored:
  assumes "ev_origin ev = CADIT_ORIGIN"
    and "read_prop (ev_data ev) ''type'' = JStr tag"
    and "tag \<noteq> []" and "tag \<noteq> ''ready''" and "tag \<noteq> ''export-stl''"
  shows "handleMessage ev s =
           Normal (s\<lparr> console := console s @
                        [ConsoleLog ''Received message: '' [JStr tag, payload_of ev],
                         ConsoleLog ''Unknown message type:'' [JStr tag]],
                      eventLog := \<lparr> le_type = JStr tag, le_direction = Recv,
                                     le_data = payload_of ev \<rparr> # eventLog s \<rparr>)"
  using assms handleMessage_unknown [of ev s] by simp

theorem unknown_tag_ignored_witness:
  "handleMessage \<lparr> ev_origin = CADIT_ORIGIN, ev_data = message (JStr ''import-stl'') JNull \<rparr>
     page_loaded =
   Normal (page_loaded
     \<lparr> console := [ConsoleLog ''Received message: '' [JStr ''import-stl'', JNull],
                   ConsoleLog ''Unknown message type:'' [JStr ''import-stl'']],
       eventLog := \<lparr> le_type = JStr ''import-stl'', le_direction = Recv, le_data = JNull \<rparr>
                   # eventLog page_loaded \<rparr>)"
  using unknown_tag_ignored
    [of "\<lparr> ev_origin = CADIT_ORIGIN, ev_data = message (JStr ''import-stl'') JNull \<rparr>"
        "''import-stl''" page_loaded]
  by (simp add: message_def payload_of_def page_loaded_def)

text \<open>
  Claim C10 says that the handler is total only for events whose data is an object. The
  destructuring also succeeds on a primitive: with the string \<^verbatim>\<open>'hello'\<close> as data both
  \<^verbatim>\<open>type\<close> and \<^verbatim>\<open>payload\<close> are \<^verbatim>\<open>undefined\<close> and the handler returns, leaving the state
  as it was.
\<close>

theorem primitive_data_counterexample:
  "handleMessage \<lparr> ev_origin = CADIT_ORIGIN, ev_data = JStr ''hello'' \<rparr> page_loaded =
     Normal page_loaded \<and>
   is_object (JStr ''hello'') = False"
  by (simp add: handleMessage_def destructure_def)

text \<open>
  Claim C10, as the script behaves: with the trusted origin and data \<^verbatim>\<open>null\<close> or
  \<^verbatim>\<open>undefined\<close> the handler throws a \<^verbatim>\<open>TypeError\<close> and the state is as before. The
  destructuring fails on these two values only; with any other data that is not an
  object (a boolean, a number, a string) the handler returns normally and the state is
  as before.
\<close>

theorem nullish_data_throws:
  assumes "ev_origin ev = CADIT_ORIGIN"
  shows "(nullish (ev_data ev) \<longrightarrow> handleMessage ev s = Throw TypeError s) \<and>
         (destructure (ev_data ev) = Inl TypeError) = nullish (ev_data ev) \<and>
         (\<not> nullish (ev_data ev) \<and> \<not> is_object (ev_data ev) \<longrightarrow>
            handleMessage ev s = Normal s)"
  using assms by (simp add: handleMessage_def destructure_def read_prop_primitive)

theorem nullish_data_throws_witness:
  "handleMessage \<lparr> ev_origin = CADIT_ORIGIN, ev_data = JNull \<rparr> page_loaded =
     Throw TypeError page_loaded \<and>
   handleMessage \<lparr> ev_origin = CADIT_ORIGIN, ev_data = JUndefined \<rparr> page_loaded =
     Throw TypeError page_loaded \<and>
   handleMessage \<lparr> ev_origin = CADIT_ORIGIN, ev_data = JNum 5 \<rparr> page_loaded =
     Normal page_loaded"
  using nullish_data_throws [of "\<lparr> ev_origin = CADIT_ORIGIN, ev_data = JNull \<rparr>" page_loaded]
    nullish_data_throws [of "\<lparr> ev_origin = CADIT_ORIGIN, ev_data = JUndefined \<rparr>" page_loaded]
    nullish_data_throws [of "\<lparr> ev_origin = CADIT_ORIGIN, ev_data = JNum 5 \<rparr>" page_loaded]
  by simp

section \<open>The second copy\<close>

text \<open>
  The second copy of the script drops foreign origins, addresses its messages, gates the
  export request, ignores unknown tags and throws on absent data in the same way. It
  differs where it has no state to keep: an export without a blob is reported on the
  console only and its status line is left alone.
\<close>

lemma p0_sendMessage_outbox:
  "p0_outbox (p0_sendMessage t p s) =
     p0_outbox s @ (if p0_contentWindow s
                    then [\<lparr> om_message = message (JStr t) p, om_target = p0_CADIT_ORIGIN \<rparr>]
                    else [])"
  by (simp add: p0_sendMessage_def p0_logEvent_def)

lemma p0_sendMessage_fields:
  "p0_isReady (p0_sendMessage t p s) = p0_isReady s"
  "p0_statusText (p0_sendMessage t p s) = p0_statusText s"
  "p0_alerts (p0_sendMessage t p s) = p0_alerts s"
  by (simp_all add: p0_sendMessage_def p0_logEvent_def)

lemma p0_untrusted_origin_dropped:
  "ev_origin ev \<noteq> p0_CADIT_ORIGIN \<Longrightarrow> p0_handleMessage ev s = Normal s"
  by (simp add: p0_handleMessage_def)

lemma p0_nullish_data_throws:
  assumes "ev_origin ev = p0_CADIT_ORIGIN"
  shows "(nullish (ev_data ev) \<longrightarrow> p0_handleMessage ev s = Throw TypeError s) \<and>
         (\<not> nullish (ev_data ev) \<and> \<not> is_object (ev_data ev) \<longrightarrow>
            p0_handleMessage ev s =
              Normal (s\<lparr> p0_console := p0_console s @
                [ConsoleWarn ''Received message without type:'' [ev_data ev]] \<rparr>))"
  using assms by (simp add: p0_handleMessage_def destructure_def read_prop_primitive)

lemma p0_unknown_tag_ignored:
  assumes "ev_origin ev = p0_CADIT_ORIGIN"
    and "truthy (read_prop (ev_data ev) ''type'')"
    and "stringifies (read_prop (ev_data ev) ''type'')"
    and "read_prop (ev_data ev) ''type'' \<noteq> JStr ''ready''"
    and "read_prop (ev_data ev) ''type'' \<noteq> JStr ''export-stl''"
  shows "p0_handleMessage ev s =
           Normal (s\<lparr> p0_console := p0_console s @
                        [ConsoleLog ''Unknown message type:'' [read_prop (ev_data ev) ''type'']],
                      p0_eventLog := \<lparr> le_type = read_prop (ev_data ev) ''type'',
                                        le_direction = Recv,
                                        le_data = payload_of ev \<rparr> # p0_eventLog s \<rparr>)"
  using assms tagged_not_nullish [OF assms(2)]
  by (simp add: p0_handleMessage_def destructure_def p0_logEvent_def Let_def payload_of_def)

lemma p0_handleReady_outbox:
  "p0_outbox (state_of (p0_handleReady p s)) =
     p0_outbox s @
     (if stringifies (read_prop p ''version'') \<and> p0_contentWindow s
      then [\<lparr> om_message = message (JStr ''init'') p0_init_payload,
              om_target = p0_CADIT_ORIGIN \<rparr>]
      else [])"
  "p0_isReady (state_of (p0_handleReady p s))"
  by (simp_all add: p0_handleReady_def Let_def p0_sendInit_def p0_sendMessage_outbox
      p0_sendMessage_fields stringifies_js_or)

lemma p0_ready_received:
  assumes "ev_origin ev = p0_CADIT_ORIGIN" and "read_prop (ev_data ev) ''type'' = JStr ''ready''"
  shows "p0_isReady (state_of (p0_handleMessage ev s)) \<and>
         p0_outbox (state_of (p0_handleMessage ev s)) =
           p0_outbox s @
           (if stringifies (read_prop (payload_of ev) ''version'') \<and> p0_contentWindow s
            then [\<lparr> om_message = message (JStr ''init'') p0_init_payload,
                    om_target = p0_CADIT_ORIGIN \<rparr>]
            else [])"
proof -
  from assms(2) have "\<not> nullish (ev_data ev)"
    by (cases "ev_data ev") simp_all
  with assms show ?thesis
    by (simp add: p0_handleMessage_def destructure_def Let_def p0_handleReady_outbox
        p0_logEvent_def payload_of_def)
qed

text \<open>The button of the second copy sends \<^verbatim>\<open>init\<close> again on every click.\<close>

lemma p0_init_button:
  "p0_outbox (state_of (p0_step P0_ClickInit s)) =
     p0_outbox s @
     (if p0_contentWindow s
      then [\<lparr> om_message = message (JStr ''init'') p0_init_payload,
              om_target = p0_CADIT_ORIGIN \<rparr>]
      else [])"
  by (simp add: p0_sendInit_def p0_sendMessage_outbox)

lemma p0_requestStl_gate:
  "(\<not> p0_isReady s \<longrightarrow>
      p0_requestStl s =
        s\<lparr> p0_alerts := p0_alerts s @
             [''CADit is not ready yet. Please wait for it to load.''] \<rparr>) \<and>
   (p0_isReady s \<longrightarrow>
      p0_outbox (p0_requestStl s) =
        p0_outbox s @
        (if p0_contentWindow s
         then [\<lparr> om_message = message (JStr ''get-stl'') JNull, om_target = p0_CADIT_ORIGIN \<rparr>]
         else []))"
  by (simp add: p0_requestStl_def p0_sendMessage_outbox)

lemma p0_export_without_blob:
  "\<not> truthy (read_prop payload ''blob'') \<Longrightarrow>
   p0_handleExportStl payload s =
     Normal (s\<lparr> p0_console := p0_console s @
                  [ConsoleError ''No blob in export-stl payload''] \<rparr>)"
  by (simp add: p0_handleExportStl_def)

lemma p0_handleExportStl_outbox:
  "p0_outbox (state_of (p0_handleExportStl payload s)) = p0_outbox s"
  by (simp add: p0_handleExportStl_def Let_def split: jsval.split)

lemma p0_step_outbox_targets:
  assumes "\<forall>m\<in>set (p0_outbox s). om_target m = p0_CADIT_ORIGIN"
  shows "\<forall>m\<in>set (p0_outbox (state_of (p0_step i s))). om_target m = p0_CADIT_ORIGIN"
proof (cases i)
  case (P0_Message ev)
  have "p0_outbox (state_of (p0_handleMessage ev s)) = p0_outbox s \<or>
        p0_outbox (state_of (p0_handleMessage ev s)) =
          p0_outbox s @ [\<lparr> om_message = message (JStr ''init'') p0_init_payload,
                            om_target = p0_CADIT_ORIGIN \<rparr>]"
    by (simp add: p0_handleMessage_def destructure_def Let_def p0_handleReady_outbox
        p0_logEvent_def p0_handleExportStl_outbox split: sum.split)
  with assms P0_Message show ?thesis by auto
next
  case P0_ClickInit
  with assms show ?thesis by (auto simp: p0_sendInit_def p0_sendMessage_outbox)
next
  case P0_ClickGetStl
  with assms show ?thesis by (auto simp: p0_requestStl_def p0_sendMessage_outbox)
qed

lemma p0_run_outbox_targets:
  "\<forall>m\<in>set (p0_outbox s). om_target m = p0_CADIT_ORIGIN \<Longrightarrow>
   \<forall>m\<in>set (p0_outbox (p0_run ins s)). om_target m = p0_CADIT_ORIGIN"
proof (induction ins arbitrary: s)
  case Nil
  then show ?case by simp
next
  case (Cons i ins)
  from Cons.prems
  have "\<forall>m\<in>set (p0_outbox (state_of (p0_step i s))). om_target m = p0_CADIT_ORIGIN"
    by (rule p0_step_outbox_targets)
  then show ?case using Cons.IH by simp
qed

text \<open>The ready flag of the second copy is never reset either.\<close>

lemma p0_handleExportStl_isReady:
  "p0_isReady (state_of (p0_handleExportStl payload s)) = p0_isReady s"
  by (simp add: p0_handleExportStl_def Let_def split: jsval.split)

lemma p0_step_isReady:
  assumes "p0_isReady s"
  shows "p0_isReady (state_of (p0_step i s))"
proof (cases i)
  case (P0_Message ev)
  with assms show ?thesis
    by (simp add: p0_handleMessage_def destructure_def Let_def p0_handleReady_outbox
        p0_logEvent_def p0_handleExportStl_isReady split: sum.split)
next
  case P0_ClickInit
  with assms show ?thesis by (simp add: p0_sendInit_def p0_sendMessage_fields)
next
  case P0_ClickGetStl
  with assms show ?thesis by (simp add: p0_requestStl_def p0_sendMessage_fields)
qed

lemma p0_run_isReady: "p0_isReady s \<Longrightarrow> p0_isReady (p0_run ins s)"
  by (induction ins arbitrary: s) (simp_all add: p0_step_isReady)

end
